theory Spec2Isabelle
  imports Main
begin

section \<open>JavaScript values reaching the methods and publications\<close>

text \<open>
  A Meteor method or publication receives whatever the client sent. The code tests its
  argument with \<^verbatim>\<open>typeof x !== 'string'\<close>, with \<^verbatim>\<open>!x\<close> and with
  \<^verbatim>\<open>!x.trim()\<close>, so the argument is a tagged value. \<open>JUndefined\<close> is the missing
  argument. Numbers matter only through their truthiness (zero and NaN are falsy).
  Strings are lists of code units below 256. \<open>JObject c\<close> is an object or an array;
  \<open>c\<close> tells whether converting it to a string returns: the conversion throws
  \<^verbatim>\<open>TypeError\<close> when neither \<^verbatim>\<open>toString\<close> nor \<^verbatim>\<open>valueOf\<close> gives a primitive, as for
  the object \<^verbatim>\<open>{ toString: 1 }\<close> a client can send.
\<close>

datatype jsval =
    JUndefined
  | JNull
  | JBool bool
  | JNum int
  | JNaN
  | JStr string
  | JObject bool

text \<open>JavaScript truthiness: \<^verbatim>\<open>!v\<close> is \<open>\<not> truthy v\<close>.\<close>

fun truthy :: "jsval \<Rightarrow> bool" where
  "truthy JUndefined = False"
| "truthy JNull = False"
| "truthy (JBool b) = b"
| "truthy (JNum n) = (n \<noteq> 0)"
| "truthy JNaN = False"
| "truthy (JStr s) = (s \<noteq> [])"
| "truthy (JObject c) = True"

text \<open>
  A template literal \<^verbatim>\<open>`... ${v} ...`\<close> converts \<open>v\<close> to a string; every value other
  than an object has a conversion that returns. \<^verbatim>\<open>v === 0\<close> holds of the number zero only.
\<close>

datatype js_error = TypeError

fun to_string_returns :: "jsval \<Rightarrow> bool" where
  "to_string_returns (JObject c) = c"
| "to_string_returns v = True"

fun strictly_zero :: "jsval \<Rightarrow> bool" where
  "strictly_zero (JNum n) = (n = 0)"
| "strictly_zero v = False"

text \<open>
  The white space \<^verbatim>\<open>String.prototype.trim\<close> removes, among the code units below 256:
  tab, line feed, vertical tab, form feed, carriage return, space and no-break space.
\<close>

definition is_white_space :: "char \<Rightarrow> bool" where
  "is_white_space c = ((of_char c :: nat) \<in> {9, 10, 11, 12, 13, 32, 160})"

definition trim :: "string \<Rightarrow> string" where
  "trim s = rev (dropWhile is_white_space (rev (dropWhile is_white_space s)))"

section \<open>The People collection\<close>

text \<open>
  A document of the \<^verbatim>\<open>people\<close> collection. \<open>person_id\<close> is the field \<^verbatim>\<open>_id\<close>.
  A date is the number of milliseconds since the epoch; \<open>None\<close> is \<^verbatim>\<open>null\<close>.
\<close>

record person =
  person_id :: string
  communityId :: string
  firstName :: string
  lastName :: string
  companyName :: "string option"
  title :: "string option"
  checkInDate :: "int option"
  checkOutDate :: "int option"

text \<open>The collection is the sequence of its documents, in the store's natural order.\<close>

type_synonym collection = "person list"

text \<open>\<^verbatim>\<open>People.findOneAsync({ _id: personId })\<close>: the first document with that id, if any.\<close>

definition findOneAsync :: "collection \<Rightarrow> string \<Rightarrow> person option" where
  "findOneAsync people i = find (\<lambda>p. person_id p = i) people"

text \<open>
  \<^verbatim>\<open>People.updateAsync({ _id: personId }, { $set: ... })\<close>. The selector is the id alone;
  without \<^verbatim>\<open>multi\<close> the first matching document is updated. \<^verbatim>\<open>People\<close> is a
  \<^verbatim>\<open>Mongo.Collection\<close>, whose \<^verbatim>\<open>updateAsync\<close> resolves to a number: the number of
  documents the selector matched.
\<close>

fun updateAsync ::
  "collection \<Rightarrow> string \<Rightarrow> (person \<Rightarrow> person) \<Rightarrow> nat \<times> collection" where
  "updateAsync [] i f = (0, [])"
| "updateAsync (p # ps) i f =
     (if person_id p = i
      then (1, f p # ps)
      else (fst (updateAsync ps i f), p # snd (updateAsync ps i f)))"

text \<open>
  \<^verbatim>\<open>result.modifiedCount\<close>, as the methods read it. The result is a number, and a number
  has no property \<^verbatim>\<open>modifiedCount\<close>: the read gives \<^verbatim>\<open>undefined\<close>.
\<close>

definition modifiedCount :: "nat \<Rightarrow> jsval" where
  "modifiedCount result = JUndefined"

section \<open>The methods people.checkIn and people.checkOut\<close>

text \<open>
  \<^verbatim>\<open>new Meteor.Error(code, reason)\<close>, kept by its code. The codes the methods name are
  \<^verbatim>\<open>invalid-argument\<close>, \<^verbatim>\<open>person-not-found\<close>, \<^verbatim>\<open>invalid-operation\<close>,
  \<^verbatim>\<open>already-checked-out\<close> and \<^verbatim>\<open>update-failed\<close>. The store operations of this model
  do not throw, so the \<^verbatim>\<open>catch\<close> block, which rethrows every \<^verbatim>\<open>Meteor.Error\<close>
  unchanged and wraps anything else as \<^verbatim>\<open>database-error\<close>, passes each error through.
\<close>

datatype meteor_error = MeteorError string

text \<open>An object literal is the list of its properties.\<close>

type_synonym js_object = "(string \<times> jsval) list"

text \<open>The two \<^verbatim>\<open>$set\<close> modifiers.\<close>

definition set_checkIn :: "int \<Rightarrow> person \<Rightarrow> person" where
  "set_checkIn now p = p\<lparr>checkInDate := Some now, checkOutDate := None\<rparr>"

definition set_checkOut :: "int \<Rightarrow> person \<Rightarrow> person" where
  "set_checkOut now p = p\<lparr>checkOutDate := Some now\<rparr>"

text \<open>
  \<^verbatim>\<open>people.checkIn\<close>. \<open>now\<close> is the value of \<^verbatim>\<open>new Date()\<close>. The result is what the
  method returns or throws, and the collection after the call.
\<close>

definition checkIn ::
  "collection \<Rightarrow> jsval \<Rightarrow> int \<Rightarrow> (meteor_error + js_object) \<times> collection" where
  "checkIn people personId now =
     (case personId of
        JStr s \<Rightarrow>
          if trim s = [] then (Inl (MeteorError ''invalid-argument''), people)
          else
            (let (result, people') = updateAsync people s (set_checkIn now)
             in if strictly_zero (modifiedCount result)
                then (Inl (MeteorError ''person-not-found''), people')
                else (Inr [(''success'', JBool True),
                           (''message'', JStr ''Check-in realizado com sucesso!'')], people'))
      | _ \<Rightarrow> (Inl (MeteorError ''invalid-argument''), people))"

text \<open>
  \<^verbatim>\<open>people.checkOut\<close> awaits twice: the read \<^verbatim>\<open>findOneAsync\<close> and the write
  \<^verbatim>\<open>updateAsync\<close>. \<open>checkOut_read\<close> is the method up to the end of its checks on the
  document read; it yields the id the write will use. \<open>checkOut_write\<close> is the rest.
\<close>

definition checkOut_read :: "collection \<Rightarrow> jsval \<Rightarrow> meteor_error + string" where
  "checkOut_read people personId =
     (case personId of
        JStr s \<Rightarrow>
          if trim s = [] then Inl (MeteorError ''invalid-argument'')
          else
            (case findOneAsync people s of
               None \<Rightarrow> Inl (MeteorError ''person-not-found'')
             | Some person \<Rightarrow>
                 if checkInDate person = None then Inl (MeteorError ''invalid-operation'')
                 else if checkOutDate person \<noteq> None then Inl (MeteorError ''already-checked-out'')
                 else Inr s)
      | _ \<Rightarrow> Inl (MeteorError ''invalid-argument''))"

definition checkOut_write ::
  "collection \<Rightarrow> string \<Rightarrow> int \<Rightarrow> (meteor_error + js_object) \<times> collection" where
  "checkOut_write people s now =
     (let (result, people') = updateAsync people s (set_checkOut now)
      in if strictly_zero (modifiedCount result)
         then (Inl (MeteorError ''update-failed''), people')
         else (Inr [(''success'', JBool True),
                    (''message'', JStr ''Check-out realizado com sucesso!'')], people'))"

text \<open>A call of \<^verbatim>\<open>people.checkOut\<close> that nothing interleaves with.\<close>

definition checkOut ::
  "collection \<Rightarrow> jsval \<Rightarrow> int \<Rightarrow> (meteor_error + js_object) \<times> collection" where
  "checkOut people personId now =
     (case checkOut_read people personId of
        Inl e \<Rightarrow> (Inl e, people)
      | Inr s \<Rightarrow> checkOut_write people s now)"

section \<open>Calls of people.checkOut that interleave\<close>

text \<open>
  Method calls of different clients run interleaved: a call gives up control at each
  \<^verbatim>\<open>await\<close>. A call of \<^verbatim>\<open>people.checkOut\<close> is therefore in one of three places:
  not yet started (\<open>Called\<close>, with its argument), past its read and its checks and about
  to write (\<open>Checked\<close>, with the id), or finished (\<open>Returned\<close>, with what it returned or
  threw). A schedule names, step by step, the call that runs next and the clock value it
  would read with \<^verbatim>\<open>new Date()\<close>. A step is one store operation: the read with the
  checks that follow it, or the write, which reads the clock and applies the update.
\<close>

datatype call_state =
    Called jsval
  | Checked string
  | Returned "meteor_error + js_object"

definition run_call ::
  "collection \<times> call_state list \<Rightarrow> nat \<times> int \<Rightarrow> collection \<times> call_state list" where
  "run_call state next =
     (let (people, calls) = state; (i, now) = next
      in if i < length calls
         then (case calls ! i of
                 Called personId \<Rightarrow>
                   (people,
                    calls[i := (case checkOut_read people personId of
                                  Inl e \<Rightarrow> Returned (Inl e)
                                | Inr s \<Rightarrow> Checked s)])
               | Checked s \<Rightarrow>
                   (let (r, people') = checkOut_write people s now
                    in (people', calls[i := Returned r]))
               | Returned r \<Rightarrow> (people, calls))
         else (people, calls))"

definition run_schedule ::
  "collection \<times> call_state list \<Rightarrow> (nat \<times> int) list \<Rightarrow> collection \<times> call_state list" where
  "run_schedule state schedule = foldl run_call state schedule"

text \<open>A call has succeeded when it returned an object whose \<^verbatim>\<open>success\<close> is \<^verbatim>\<open>true\<close>.\<close>

fun succeeded :: "call_state \<Rightarrow> bool" where
  "succeeded (Returned (Inr obj)) = (map_of obj ''success'' = Some (JBool True))"
| "succeeded c = False"

section \<open>Sequences of method calls\<close>

text \<open>
  \<^verbatim>\<open>Meteor.callAsync(name, personId)\<close> for the two methods, a call paired with the
  clock value it reads, and the collection after a sequence of calls that run one after
  the other.
\<close>

datatype method_name = People_checkIn | People_checkOut

datatype method_call = CallAsync method_name jsval

definition call_method ::
  "collection \<Rightarrow> method_call \<times> int \<Rightarrow> (meteor_error + js_object) \<times> collection" where
  "call_method people c =
     (case c of
        (CallAsync People_checkIn personId, now) \<Rightarrow> checkIn people personId now
      | (CallAsync People_checkOut personId, now) \<Rightarrow> checkOut people personId now)"

fun call_methods :: "collection \<Rightarrow> (method_call \<times> int) list \<Rightarrow> collection" where
  "call_methods people [] = people"
| "call_methods people (c # cs) = call_methods (snd (call_method people c)) cs"

text \<open>
  The invariant of a record: a check-out date comes with a check-in date that is not
  later. \<open>dated_by t\<close> adds that neither date is later than the clock value \<open>t\<close>.
\<close>

definition date_invariant :: "person \<Rightarrow> bool" where
  "date_invariant p =
     (case checkOutDate p of
        None \<Rightarrow> True
      | Some out \<Rightarrow> (case checkInDate p of None \<Rightarrow> False | Some inn \<Rightarrow> inn \<le> out))"

definition dated_by :: "int \<Rightarrow> person \<Rightarrow> bool" where
  "dated_by t p =
     (date_invariant p
      \<and> (case checkInDate p of None \<Rightarrow> True | Some inn \<Rightarrow> inn \<le> t)
      \<and> (case checkOutDate p of None \<Rightarrow> True | Some out \<Rightarrow> out \<le> t))"

text \<open>The clock values of a sequence of calls never go back, starting from \<open>t\<close>.\<close>

fun clock_from :: "int \<Rightarrow> (method_call \<times> int) list \<Rightarrow> bool" where
  "clock_from t [] = True"
| "clock_from t (c # cs) = (t \<le> snd c \<and> clock_from (snd c) cs)"

section \<open>The publication people\<close>

text \<open>
  \<^verbatim>\<open>People.find({ communityId })\<close> is a cursor: a query that has not read the store.
  A publication handler either calls \<^verbatim>\<open>this.ready()\<close> and returns nothing, or returns an
  array of cursors, or returns one cursor; Meteor publishes the documents of the returned
  cursors and then marks the subscription ready. A handler that throws stops the
  subscription with an error: it is not marked ready.
\<close>

datatype cursor = PeopleFind string

datatype publish_return =
    ReadyNoCursor
  | CursorArray "cursor list"
  | OneCursor cursor

text \<open>
  The handler that calls \<^verbatim>\<open>this.ready()\<close> on a rejected argument. Its first statement
  logs a template literal of the argument, before any check of it.
\<close>

definition publish_people :: "jsval \<Rightarrow> js_error + publish_return" where
  "publish_people community =
     (if \<not> to_string_returns community then Inl TypeError
      else if \<not> truthy community then Inr ReadyNoCursor
      else (case community of
              JStr s \<Rightarrow> if trim s = [] then Inr ReadyNoCursor else Inr (OneCursor (PeopleFind s))
            | _ \<Rightarrow> Inr ReadyNoCursor))"

text \<open>The handler that returns \<^verbatim>\<open>[]\<close> on a rejected argument; it logs nothing.\<close>

definition publish_people_array :: "jsval \<Rightarrow> publish_return" where
  "publish_people_array community =
     (if \<not> truthy community then CursorArray []
      else (case community of
              JStr s \<Rightarrow> if trim s = [] then CursorArray [] else OneCursor (PeopleFind s)
            | _ \<Rightarrow> CursorArray []))"

text \<open>The cursors a handler's result makes Meteor read, and the documents they give.\<close>

fun cursors :: "publish_return \<Rightarrow> cursor list" where
  "cursors ReadyNoCursor = []"
| "cursors (CursorArray cs) = cs"
| "cursors (OneCursor c) = [c]"

fun fetch :: "collection \<Rightarrow> cursor \<Rightarrow> person list" where
  "fetch people (PeopleFind c) = filter (\<lambda>p. communityId p = c) people"

definition published :: "collection \<Rightarrow> publish_return \<Rightarrow> person list" where
  "published people r = concat (map (fetch people) (cursors r))"

section \<open>The action button of PeopleList\<close>

text \<open>
  \<^verbatim>\<open>getTimeDifferenceInSeconds\<close>: \<open>now\<close> is the value of \<^verbatim>\<open>new Date()\<close>, the
  difference of two dates is in milliseconds, and \<^verbatim>\<open>Math.floor\<close> of the quotient is
  the integer division rounding down.
\<close>

definition getTimeDifferenceInSeconds :: "int \<Rightarrow> int option \<Rightarrow> int" where
  "getTimeDifferenceInSeconds now date =
     (case date of None \<Rightarrow> 0 | Some d \<Rightarrow> (now - d) div 1000)"

text \<open>
  What \<^verbatim>\<open>renderActionButton\<close> returns: a button with its \<^verbatim>\<open>disabled\<close> attribute, its
  \<^verbatim>\<open>onClick\<close> handler if it has one, and its children, or a \<^verbatim>\<open>span\<close>.
  The handlers \<^verbatim>\<open>handleCheckIn\<close> and \<^verbatim>\<open>handleCheckOut\<close> call the methods.
\<close>

datatype jsx_child = JsxText string | JsxNumber int

datatype jsx =
    Button bool "method_call option" "jsx_child list"
  | Span "jsx_child list"

definition handleCheckIn :: "string \<Rightarrow> method_call" where
  "handleCheckIn personId = CallAsync People_checkIn (JStr personId)"

definition handleCheckOut :: "string \<Rightarrow> method_call" where
  "handleCheckOut personId = CallAsync People_checkOut (JStr personId)"

definition renderActionButton :: "int \<Rightarrow> person \<Rightarrow> jsx" where
  "renderActionButton now person =
     (let fullName = firstName person @ '' '' @ lastName person
      in if checkInDate person = None
         then Button False (Some (handleCheckIn (person_id person)))
                [JsxText ''Check-in '', JsxText fullName]
         else if checkOutDate person = None
         then (let secondsSinceCheckIn = getTimeDifferenceInSeconds now (checkInDate person)
               in if secondsSinceCheckIn < 5
                  then Button True None
                         [JsxText ''Aguarde... ('', JsxNumber (5 - secondsSinceCheckIn),
                          JsxText ''s)'']
                  else Button False (Some (handleCheckOut (person_id person)))
                         [JsxText ''Check-out '', JsxText fullName])
         else Span [JsxText ''Check-out realizado''])"

section \<open>The records of the examples\<close>

text \<open>
  Person P1 of community C1: not arrived, present since clock value 1000, and departed
  at clock value 3000.
\<close>

definition ana :: person where
  "ana = \<lparr>person_id = ''P1'', communityId = ''C1'', firstName = ''Ana'', lastName = ''Lee'',
          companyName = None, title = None, checkInDate = None, checkOutDate = None\<rparr>"

definition ana_present :: person where
  "ana_present = ana\<lparr>checkInDate := Some 1000\<rparr>"

definition ana_departed :: person where
  "ana_departed = ana\<lparr>checkInDate := Some 1000, checkOutDate := Some 3000\<rparr>"

text \<open>A person of another community.\<close>

definition bo :: person where
  "bo = \<lparr>person_id = ''P2'', communityId = ''C2'', firstName = ''Bo'', lastName = ''Kim'',
         companyName = Some ''Acme'', title = None, checkInDate = None, checkOutDate = None\<rparr>"

section \<open>Facts about the store operations\<close>

lemma trim_nonempty: "trim s \<noteq> [] \<Longrightarrow> s \<noteq> []"
  by (auto simp: trim_def)

lemma updateAsync_absent:
  "findOneAsync people i = None \<Longrightarrow> updateAsync people i f = (0, people)"
  by (induction people) (auto simp: findOneAsync_def)

lemma updateAsync_stored:
  "findOneAsync people i = Some p \<Longrightarrow> person_id (f p) = i \<Longrightarrow>
   findOneAsync (snd (updateAsync people i f)) i = Some (f p)"
  by (induction people) (auto simp: findOneAsync_def)

lemma findOneAsync_id: "findOneAsync people i = Some p \<Longrightarrow> person_id p = i"
  by (induction people) (auto simp: findOneAsync_def split: if_splits)

lemma updateAsync_list_all:
  "list_all P people \<Longrightarrow> (\<And>p. findOneAsync people i = Some p \<Longrightarrow> P (f p)) \<Longrightarrow>
   list_all P (snd (updateAsync people i f))"
  by (induction people) (auto simp: findOneAsync_def)

lemma trim_P1: "trim ''P1'' \<noteq> []"
  by (simp add: trim_def is_white_space_def)

lemma checkIn_valid:
  "trim s \<noteq> [] \<Longrightarrow>
   checkIn people (JStr s) now
     = (Inr [(''success'', JBool True), (''message'', JStr ''Check-in realizado com sucesso!'')],
        snd (updateAsync people s (set_checkIn now)))"
  by (simp add: checkIn_def modifiedCount_def split: prod.splits)

lemma checkOut_write_returns:
  "checkOut_write people s now
     = (Inr [(''success'', JBool True), (''message'', JStr ''Check-out realizado com sucesso!'')],
        snd (updateAsync people s (set_checkOut now)))"
  by (simp add: checkOut_write_def modifiedCount_def split: prod.splits)

section \<open>Failures of the methods\<close>

text \<open>
  C3. \<^verbatim>\<open>people.checkIn\<close> tests \<^verbatim>\<open>result.modifiedCount === 0\<close> before it throws
  \<^verbatim>\<open>person-not-found\<close>, and the result is a number, so the test is never true. With
  no document P9 in the collection, the call for P9 returns success and leaves the
  collection as it was, where the claim has the failure for a person that is not found.
\<close>

theorem checkIn_absent_reports_success:
  "findOneAsync [ana, bo] ''P9'' = None
   \<and> checkIn [ana, bo] (JStr ''P9'') 1000
       = (Inr [(''success'', JBool True), (''message'', JStr ''Check-in realizado com sucesso!'')],
          [ana, bo])"
proof -
  have t: "trim ''P9'' \<noteq> []"
    by (simp add: trim_def is_white_space_def)
  have f: "findOneAsync [ana, bo] ''P9'' = None"
    by (simp add: findOneAsync_def ana_def bo_def)
  show ?thesis
    using f checkIn_valid [OF t, of "[ana, bo]" 1000] updateAsync_absent [OF f]
    by simp
qed

text \<open>No call of \<^verbatim>\<open>people.checkIn\<close> throws \<^verbatim>\<open>person-not-found\<close>.\<close>

lemma checkIn_never_not_found:
  "fst (checkIn people personId now) \<noteq> Inl (MeteorError ''person-not-found'')"
  by (cases personId) (simp_all add: checkIn_def modifiedCount_def split: prod.splits)

lemma checkOut_read_Inr:
  "checkOut_read people personId = Inr s \<Longrightarrow>
   personId = JStr s \<and> trim s \<noteq> []
   \<and> (\<exists>p. findOneAsync people s = Some p \<and> checkInDate p \<noteq> None \<and> checkOutDate p = None)"
  by (auto simp: checkOut_read_def split: jsval.splits if_splits option.splits)

lemma checkOut_write_Inr:
  assumes w: "checkOut_write people s now = (Inr r, people')"
    and f: "findOneAsync people s = Some p"
  shows "findOneAsync people' s = Some (set_checkOut now p)"
proof -
  have i: "person_id (set_checkOut now p) = s"
    using findOneAsync_id [OF f] by (simp add: set_checkOut_def)
  have "people' = snd (updateAsync people s (set_checkOut now))"
    using w by (auto simp: checkOut_write_def modifiedCount_def split: prod.splits if_splits)
  then show ?thesis
    using updateAsync_stored [where f = "set_checkOut now", OF f i] by simp
qed

lemma checkOut_absent:
  "trim s \<noteq> [] \<Longrightarrow> findOneAsync people s = None \<Longrightarrow>
   checkOut people (JStr s) now = (Inl (MeteorError ''person-not-found''), people)"
  by (simp add: checkOut_def checkOut_read_def)

lemma checkOut_not_checked_in:
  "trim s \<noteq> [] \<Longrightarrow> findOneAsync people s = Some p \<Longrightarrow> checkInDate p = None \<Longrightarrow>
   checkOut people (JStr s) now = (Inl (MeteorError ''invalid-operation''), people)"
  by (simp add: checkOut_def checkOut_read_def)

lemma checkOut_already:
  "trim s \<noteq> [] \<Longrightarrow> findOneAsync people s = Some p \<Longrightarrow> checkInDate p \<noteq> None \<Longrightarrow>
   checkOutDate p \<noteq> None \<Longrightarrow>
   checkOut people (JStr s) now = (Inl (MeteorError ''already-checked-out''), people)"
  by (simp add: checkOut_def checkOut_read_def)

lemma date_invariant_checked_in:
  "date_invariant p \<Longrightarrow> checkOutDate p \<noteq> None \<Longrightarrow> checkInDate p \<noteq> None"
  by (auto simp: date_invariant_def split: option.splits)

lemma checkOut_twice:
  assumes t: "trim s \<noteq> []"
    and c: "checkOut people (JStr s) now = (Inr r, people')"
  shows "checkOut people' (JStr s) now' = (Inl (MeteorError ''already-checked-out''), people')"
proof -
  from c obtain s' where rd: "checkOut_read people (JStr s) = Inr s'"
    and w: "checkOut_write people s' now = (Inr r, people')"
    by (auto simp: checkOut_def split: sum.splits)
  from checkOut_read_Inr [OF rd] obtain p where s': "s' = s"
    and f: "findOneAsync people s = Some p" and i: "checkInDate p \<noteq> None"
    by auto
  have f': "findOneAsync people' s = Some (set_checkOut now p)"
    using checkOut_write_Inr w f s' by simp
  have "checkInDate (set_checkOut now p) \<noteq> None" "checkOutDate (set_checkOut now p) \<noteq> None"
    using i by (simp_all add: set_checkOut_def)
  then show ?thesis
    by (rule checkOut_already [OF t f'])
qed

text \<open>
  C4. For every personId that is a string and not blank, \<^verbatim>\<open>people.checkOut\<close> throws
  \<^verbatim>\<open>person-not-found\<close> when no document has that id, \<^verbatim>\<open>invalid-operation\<close> (not
  checked in) when the document's checkInDate is null, and \<^verbatim>\<open>already-checked-out\<close>
  when the document, which satisfies the invariant of its dates, has a checkOutDate;
  and after a call that succeeded, the next call for the same id throws
  \<^verbatim>\<open>already-checked-out\<close>.
\<close>

theorem checkOut_failures:
  "trim s \<noteq> [] \<Longrightarrow>
   (findOneAsync people s = None \<longrightarrow>
      checkOut people (JStr s) now = (Inl (MeteorError ''person-not-found''), people))
   \<and> (\<forall>p. findOneAsync people s = Some p \<and> checkInDate p = None \<longrightarrow>
      checkOut people (JStr s) now = (Inl (MeteorError ''invalid-operation''), people))
   \<and> (\<forall>p. findOneAsync people s = Some p \<and> date_invariant p \<and> checkOutDate p \<noteq> None \<longrightarrow>
      checkOut people (JStr s) now = (Inl (MeteorError ''already-checked-out''), people))
   \<and> (\<forall>r people' now'. checkOut people (JStr s) now = (Inr r, people') \<longrightarrow>
      checkOut people' (JStr s) now' = (Inl (MeteorError ''already-checked-out''), people'))"
proof (intro conjI allI impI)
  assume t: "trim s \<noteq> []"
  show "checkOut people (JStr s) now = (Inl (MeteorError ''person-not-found''), people)"
    if "findOneAsync people s = None"
    using t that by (rule checkOut_absent)
  show "checkOut people (JStr s) now = (Inl (MeteorError ''invalid-operation''), people)"
    if "findOneAsync people s = Some p \<and> checkInDate p = None" for p
    using t that by (auto intro: checkOut_not_checked_in)
  show "checkOut people (JStr s) now = (Inl (MeteorError ''already-checked-out''), people)"
    if "findOneAsync people s = Some p \<and> date_invariant p \<and> checkOutDate p \<noteq> None" for p
    using t that by (auto intro!: checkOut_already dest: date_invariant_checked_in)
  show "checkOut people' (JStr s) now' = (Inl (MeteorError ''already-checked-out''), people')"
    if "checkOut people (JStr s) now = (Inr r, people')" for r people' now'
    using t that by (rule checkOut_twice)
qed

theorem checkOut_failures_witness:
  "trim ''P1'' \<noteq> []
   \<and> findOneAsync [bo] ''P1'' = None
   \<and> checkOut [bo] (JStr ''P1'') 2000 = (Inl (MeteorError ''person-not-found''), [bo])
   \<and> findOneAsync [ana] ''P1'' = Some ana \<and> checkInDate ana = None
   \<and> checkOut [ana] (JStr ''P1'') 2000 = (Inl (MeteorError ''invalid-operation''), [ana])
   \<and> findOneAsync [ana_departed] ''P1'' = Some ana_departed
   \<and> date_invariant ana_departed \<and> checkOutDate ana_departed \<noteq> None
   \<and> checkOut [ana_departed] (JStr ''P1'') 4000
       = (Inl (MeteorError ''already-checked-out''), [ana_departed])
   \<and> checkOut [ana_present] (JStr ''P1'') 3000
       = (Inr [(''success'', JBool True), (''message'', JStr ''Check-out realizado com sucesso!'')],
          [ana_departed])
   \<and> checkOut [ana_departed] (JStr ''P1'') 5000
       = (Inl (MeteorError ''already-checked-out''), [ana_departed])"
proof -
  have a: "findOneAsync [bo] ''P1'' = None"
    by (simp add: findOneAsync_def bo_def)
  have b: "findOneAsync [ana] ''P1'' = Some ana \<and> checkInDate ana = None"
    by (simp add: findOneAsync_def ana_def)
  have c: "findOneAsync [ana_departed] ''P1'' = Some ana_departed
           \<and> date_invariant ana_departed \<and> checkOutDate ana_departed \<noteq> None"
    by (simp add: findOneAsync_def ana_departed_def ana_def date_invariant_def)
  have f: "findOneAsync [ana_present] ''P1'' = Some ana_present"
    by (simp add: findOneAsync_def ana_present_def ana_def)
  have d: "checkOut [ana_present] (JStr ''P1'') 3000
       = (Inr [(''success'', JBool True), (''message'', JStr ''Check-out realizado com sucesso!'')],
          [ana_departed])"
    using trim_P1 f
    by (simp add: checkOut_def checkOut_read_def checkOut_write_def modifiedCount_def set_checkOut_def
        ana_present_def ana_departed_def ana_def)
  note th = checkOut_failures [OF trim_P1]
  have 1: "checkOut [bo] (JStr ''P1'') 2000 = (Inl (MeteorError ''person-not-found''), [bo])"
    using th [of "[bo]" 2000] a by simp
  have 2: "checkOut [ana] (JStr ''P1'') 2000 = (Inl (MeteorError ''invalid-operation''), [ana])"
    using th [of "[ana]" 2000] b by simp
  have 3: "checkOut [ana_departed] (JStr ''P1'') 4000
       = (Inl (MeteorError ''already-checked-out''), [ana_departed])"
    using th [of "[ana_departed]" 4000] c by simp
  have 4: "checkOut [ana_departed] (JStr ''P1'') 5000
       = (Inl (MeteorError ''already-checked-out''), [ana_departed])"
    using th [of "[ana_present]" 3000] d by simp
  from trim_P1 a b c d 1 2 3 4 show ?thesis by simp
qed

section \<open>What a successful call stores and returns\<close>

lemma checkIn_Inr:
  assumes c: "checkIn people personId now = (Inr r, people')"
  shows "r = [(''success'', JBool True), (''message'', JStr ''Check-in realizado com sucesso!'')]"
  using c by (auto simp: checkIn_def split: jsval.splits if_splits prod.splits)

lemma checkIn_departed:
  "checkIn [ana_departed, bo] (JStr ''P1'') 5000
     = (Inr [(''success'', JBool True), (''message'', JStr ''Check-in realizado com sucesso!'')],
        [ana\<lparr>checkInDate := Some 5000\<rparr>, bo])"
  using trim_P1
  by (simp add: checkIn_def modifiedCount_def set_checkIn_def modifiedCount_def ana_departed_def ana_def)

lemma checkOut_Inr:
  assumes c: "checkOut people personId now = (Inr r, people')"
  shows "r = [(''success'', JBool True), (''message'', JStr ''Check-out realizado com sucesso!'')]"
  using c
  by (auto simp: checkOut_def checkOut_write_def modifiedCount_def split: sum.splits prod.splits if_splits)

lemma checkIn_ana:
  "checkIn [ana] (JStr ''P1'') 1000
     = (Inr [(''success'', JBool True), (''message'', JStr ''Check-in realizado com sucesso!'')],
        [ana_present])"
  using trim_P1 by (simp add: checkIn_def modifiedCount_def set_checkIn_def modifiedCount_def ana_present_def ana_def)

lemma checkOut_ana_present:
  "checkOut [ana_present] (JStr ''P1'') 3000
     = (Inr [(''success'', JBool True), (''message'', JStr ''Check-out realizado com sucesso!'')],
        [ana_departed])"
  using trim_P1
  by (simp add: checkOut_def checkOut_read_def checkOut_write_def modifiedCount_def findOneAsync_def
      set_checkOut_def ana_present_def ana_departed_def ana_def)

lemma checkIn_ana_present_same_clock:
  "checkIn [ana_present] (JStr ''P1'') 1000
     = (Inr [(''success'', JBool True), (''message'', JStr ''Check-in realizado com sucesso!'')],
        [ana_present])"
  using trim_P1 by (simp add: checkIn_def modifiedCount_def set_checkIn_def ana_present_def ana_def)

text \<open>
  C5. For every record stored under the id, whatever its dates, \<^verbatim>\<open>people.checkIn\<close>
  succeeds, and after the call the record is stored with checkInDate set to the clock
  value and checkOutDate null: the update selects by id alone, so on a record that is
  present or departed the call overwrites the session.
\<close>

theorem checkIn_overwrites_session:
  "trim s \<noteq> [] \<Longrightarrow> findOneAsync people s = Some p \<Longrightarrow>
   fst (checkIn people (JStr s) now)
     = Inr [(''success'', JBool True), (''message'', JStr ''Check-in realizado com sucesso!'')]
   \<and> findOneAsync (snd (checkIn people (JStr s) now)) s
     = Some (p\<lparr>checkInDate := Some now, checkOutDate := None\<rparr>)"
proof -
  assume t: "trim s \<noteq> []" and f: "findOneAsync people s = Some p"
  have i: "person_id (set_checkIn now p) = s"
    using findOneAsync_id [OF f] by (simp add: set_checkIn_def)
  have "findOneAsync (snd (updateAsync people s (set_checkIn now))) s = Some (set_checkIn now p)"
    using updateAsync_stored [where f = "set_checkIn now", OF f i] .
  then show ?thesis
    using checkIn_valid [OF t, of people now] by (simp add: set_checkIn_def)
qed

theorem checkIn_overwrites_session_witness:
  "trim ''P1'' \<noteq> []
   \<and> findOneAsync [ana_departed, bo] ''P1'' = Some ana_departed
   \<and> checkOutDate ana_departed = Some 3000
   \<and> fst (checkIn [ana_departed, bo] (JStr ''P1'') 5000)
       = Inr [(''success'', JBool True), (''message'', JStr ''Check-in realizado com sucesso!'')]
   \<and> findOneAsync (snd (checkIn [ana_departed, bo] (JStr ''P1'') 5000)) ''P1''
       = Some (ana_departed\<lparr>checkInDate := Some 5000, checkOutDate := None\<rparr>)
   \<and> findOneAsync [ana_present] ''P1'' = Some ana_present
   \<and> fst (checkIn [ana_present] (JStr ''P1'') 1000)
       = Inr [(''success'', JBool True), (''message'', JStr ''Check-in realizado com sucesso!'')]
   \<and> findOneAsync (snd (checkIn [ana_present] (JStr ''P1'') 1000)) ''P1''
       = Some (ana_present\<lparr>checkInDate := Some 1000, checkOutDate := None\<rparr>)"
proof -
  have a: "findOneAsync [ana_departed, bo] ''P1'' = Some ana_departed"
    by (simp add: findOneAsync_def ana_departed_def ana_def)
  have a': "checkOutDate ana_departed = Some 3000"
    by (simp add: ana_departed_def)
  have b: "findOneAsync [ana_present] ''P1'' = Some ana_present"
    by (simp add: findOneAsync_def ana_present_def ana_def)
  from checkIn_overwrites_session [OF trim_P1 a, of 5000]
    checkIn_overwrites_session [OF trim_P1 b, of 1000] trim_P1 a a' b
  show ?thesis by blast
qed

text \<open>
  C6, as stated, fails: the object a successful \<^verbatim>\<open>people.checkIn\<close> or
  \<^verbatim>\<open>people.checkOut\<close> returns has the properties \<^verbatim>\<open>success\<close> and \<^verbatim>\<open>message\<close>
  and no property \<^verbatim>\<open>timestamp\<close>.
\<close>

theorem returned_timestamp_counterexample:
  "checkIn [ana] (JStr ''P1'') 1000
     = (Inr [(''success'', JBool True), (''message'', JStr ''Check-in realizado com sucesso!'')],
        [ana_present])
   \<and> map_of [(''success'', JBool True), (''message'', JStr ''Check-in realizado com sucesso!'')]
        ''timestamp'' = None
   \<and> checkOut [ana_present] (JStr ''P1'') 3000
     = (Inr [(''success'', JBool True), (''message'', JStr ''Check-out realizado com sucesso!'')],
        [ana_departed])
   \<and> map_of [(''success'', JBool True), (''message'', JStr ''Check-out realizado com sucesso!'')]
        ''timestamp'' = None"
  using checkIn_ana checkOut_ana_present by simp

text \<open>
  C6, amended. Every successful \<^verbatim>\<open>people.checkIn\<close> returns
  \<^verbatim>\<open>{ success: true, message: 'Check-in realizado com sucesso!' }\<close> and every successful
  \<^verbatim>\<open>people.checkOut\<close> returns
  \<^verbatim>\<open>{ success: true, message: 'Check-out realizado com sucesso!' }\<close>: the success flag
  with a fixed confirmation message.
\<close>

theorem returned_success_message:
  "(checkIn people personId now = (Inr r, people') \<longrightarrow>
      r = [(''success'', JBool True), (''message'', JStr ''Check-in realizado com sucesso!'')])
   \<and> (checkOut people personId now = (Inr r', people'') \<longrightarrow>
      r' = [(''success'', JBool True), (''message'', JStr ''Check-out realizado com sucesso!'')])"
  using checkIn_Inr checkOut_Inr by blast

theorem returned_success_message_witness:
  "checkIn [ana] (JStr ''P1'') 1000
     = (Inr [(''success'', JBool True), (''message'', JStr ''Check-in realizado com sucesso!'')],
        [ana_present])
   \<and> checkOut [ana_present] (JStr ''P1'') 3000
     = (Inr [(''success'', JBool True), (''message'', JStr ''Check-out realizado com sucesso!'')],
        [ana_departed])"
proof -
  obtain r p where i: "checkIn [ana] (JStr ''P1'') 1000 = (Inr r, p)"
    using checkIn_ana by simp
  obtain r' p' where out: "checkOut [ana_present] (JStr ''P1'') 3000 = (Inr r', p')"
    using checkOut_ana_present by simp
  have "r = [(''success'', JBool True), (''message'', JStr ''Check-in realizado com sucesso!'')]"
    using returned_success_message [where people = "[ana]" and personId = "JStr ''P1''"
        and now = 1000 and r = r and people' = p] i by simp
  moreover
  have "r' = [(''success'', JBool True), (''message'', JStr ''Check-out realizado com sucesso!'')]"
    using returned_success_message [where people = "[ana_present]" and personId = "JStr ''P1''"
        and now = 3000 and r' = r' and people'' = p'] out by simp
  moreover have "p = [ana_present]" "p' = [ana_departed]"
    using i out checkIn_ana checkOut_ana_present by simp_all
  ultimately show ?thesis using i out by simp
qed

section \<open>The write of people.checkOut between interleaved calls\<close>

text \<open>
  C1. The write of \<^verbatim>\<open>people.checkOut\<close> selects by id alone. A call whose checks passed
  on the present record of P1, and whose write finds the record already checked out at
  3000 by another call, still modifies the record: it replaces the check-out date by
  4000 and returns success, where the claim has a write guarded by the state of the
  stored record and a failure of the call.
\<close>

theorem checkOut_write_unguarded:
  "checkOut_read [ana_present] (JStr ''P1'') = Inr ''P1''
   \<and> checkOutDate ana_departed = Some 3000
   \<and> checkOut_write [ana_departed] ''P1'' 4000
       = (Inr [(''success'', JBool True), (''message'', JStr ''Check-out realizado com sucesso!'')],
          [ana_departed\<lparr>checkOutDate := Some 4000\<rparr>])"
  using trim_P1
  by (simp add: checkOut_read_def checkOut_write_def modifiedCount_def findOneAsync_def set_checkOut_def
      ana_present_def ana_departed_def ana_def)

text \<open>
  The test \<^verbatim>\<open>result.modifiedCount === 0\<close> before \<^verbatim>\<open>update-failed\<close> is never true
  either: the write returns success whatever it finds, also when the record is gone.
\<close>

lemma checkOut_write_absent:
  "findOneAsync people s = None \<Longrightarrow>
   checkOut_write people s now
     = (Inr [(''success'', JBool True), (''message'', JStr ''Check-out realizado com sucesso!'')], people)"
  by (simp add: checkOut_write_returns updateAsync_absent)

text \<open>
  C2. Two calls of \<^verbatim>\<open>people.checkOut\<close> for the present record of P1, scheduled so
  that both read before either writes: both return success, and the check-out date the
  first wrote (3000) is replaced by the second's (4000). The claim has exactly one
  success.
\<close>

theorem concurrent_checkOut_both_succeed:
  "run_schedule ([ana_present], [Called (JStr ''P1''), Called (JStr ''P1'')])
     [(0, 2000), (1, 2000), (0, 3000), (1, 4000)]
   = ([ana_departed\<lparr>checkOutDate := Some 4000\<rparr>],
      [Returned (Inr [(''success'', JBool True),
                      (''message'', JStr ''Check-out realizado com sucesso!'')]),
       Returned (Inr [(''success'', JBool True),
                      (''message'', JStr ''Check-out realizado com sucesso!'')])])
   \<and> map succeeded (snd (run_schedule ([ana_present], [Called (JStr ''P1''), Called (JStr ''P1'')])
       [(0, 2000), (1, 2000), (0, 3000), (1, 4000)])) = [True, True]"
  using trim_P1
  by (simp add: run_schedule_def run_call_def checkOut_read_def checkOut_write_def modifiedCount_def
      findOneAsync_def set_checkOut_def ana_present_def ana_departed_def ana_def)

text \<open>
  The same two calls one after the other: the first succeeds and the second throws
  \<^verbatim>\<open>already-checked-out\<close>.
\<close>

lemma sequential_checkOut_one_succeeds:
  "run_schedule ([ana_present], [Called (JStr ''P1''), Called (JStr ''P1'')])
     [(0, 2000), (0, 3000), (1, 3500), (1, 4000)]
   = ([ana_departed],
      [Returned (Inr [(''success'', JBool True),
                      (''message'', JStr ''Check-out realizado com sucesso!'')]),
       Returned (Inl (MeteorError ''already-checked-out''))])"
  using trim_P1
  by (simp add: run_schedule_def run_call_def checkOut_read_def checkOut_write_def modifiedCount_def
      findOneAsync_def set_checkOut_def ana_present_def ana_departed_def ana_def)

section \<open>What the publication people publishes\<close>

lemma trim_Nil: "trim [] = []"
  by (simp add: trim_def)

lemma trim_blank: "trim [CHR '' '', CHR 0x09, CHR 0xA0] = []"
  by (simp add: trim_def is_white_space_def)

lemma trim_C1: "trim ''C1'' \<noteq> []"
  by (simp add: trim_def is_white_space_def)

text \<open>
  When the argument converts to a string and is missing, is not a string, or is a string
  that is empty or blank, both handlers finish without a cursor (the first after
  \<^verbatim>\<open>this.ready()\<close>, the second by returning \<^verbatim>\<open>[]\<close>): no query reads the store and
  no document is published whatever the collection holds.
\<close>

lemma publish_people_rejects:
  "to_string_returns community \<Longrightarrow> (\<forall>s. community = JStr s \<longrightarrow> trim s = []) \<Longrightarrow>
   publish_people community = Inr ReadyNoCursor
   \<and> publish_people_array community = CursorArray []
   \<and> published people ReadyNoCursor = []
   \<and> published people (CursorArray []) = []"
  by (cases community) (simp_all add: publish_people_def publish_people_array_def published_def)

lemma publish_people_array_rejects:
  "(\<forall>s. community = JStr s \<longrightarrow> trim s = []) \<Longrightarrow> publish_people_array community = CursorArray []"
  by (cases community) (simp_all add: publish_people_array_def)

text \<open>
  C7. The first handler logs a template literal of its argument before it checks it. For
  an argument that is not a string and whose conversion to a string throws, such as the
  object \<^verbatim>\<open>{ toString: 1 }\<close>, that handler throws \<^verbatim>\<open>TypeError\<close>: the subscription
  stops with an error, where the claim has it ready and empty with no error. The second
  handler, which has no such log, returns \<^verbatim>\<open>[]\<close> for the same argument.
\<close>

theorem publish_people_throws:
  "publish_people (JObject False) = Inl TypeError
   \<and> publish_people_array (JObject False) = CursorArray []"
  by (simp add: publish_people_def publish_people_array_def)

text \<open>
  C8. For a string that is not blank, both handlers return the cursor that selects by
  the argument as it is, and the documents published are exactly the documents of the
  collection whose communityId equals the argument, in the order of the collection; a
  document of another community is not among them.
\<close>

theorem publish_people_filters:
  "trim s \<noteq> [] \<Longrightarrow>
   publish_people (JStr s) = Inr (OneCursor (PeopleFind s))
   \<and> publish_people_array (JStr s) = OneCursor (PeopleFind s)
   \<and> published people (OneCursor (PeopleFind s)) = filter (\<lambda>p. communityId p = s) people
   \<and> set (published people (OneCursor (PeopleFind s))) = {p \<in> set people. communityId p = s}"
proof -
  assume t: "trim s \<noteq> []"
  then have "s \<noteq> []" by (rule trim_nonempty)
  with t show ?thesis
    by (simp add: publish_people_def publish_people_array_def published_def)
qed

theorem publish_people_filters_witness:
  "trim ''C1'' \<noteq> []
   \<and> publish_people (JStr ''C1'') = Inr (OneCursor (PeopleFind ''C1''))
   \<and> publish_people_array (JStr ''C1'') = OneCursor (PeopleFind ''C1'')
   \<and> published [ana, bo, ana_present] (OneCursor (PeopleFind ''C1'')) = [ana, ana_present]"
proof -
  have "filter (\<lambda>p. communityId p = ''C1'') [ana, bo, ana_present] = [ana, ana_present]"
    by (simp add: ana_def bo_def ana_present_def)
  with publish_people_filters [OF trim_C1, of "[ana, bo, ana_present]"] trim_C1
  show ?thesis by simp
qed

section \<open>The invariant of the dates\<close>

lemma findOneAsync_in: "findOneAsync people i = Some p \<Longrightarrow> p \<in> set people"
  by (induction people) (auto simp: findOneAsync_def split: if_splits)

lemma dated_by_mono: "dated_by t p \<Longrightarrow> t \<le> t' \<Longrightarrow> dated_by t' p"
  by (auto simp: dated_by_def split: option.splits)

lemma dated_by_all_mono:
  "list_all (dated_by t) people \<Longrightarrow> t \<le> t' \<Longrightarrow> list_all (dated_by t') people"
  by (auto simp: list_all_iff intro: dated_by_mono)

lemma dated_by_set_checkIn: "dated_by now (set_checkIn now p)"
  by (simp add: dated_by_def date_invariant_def set_checkIn_def modifiedCount_def)

lemma dated_by_set_checkOut:
  "dated_by now p \<Longrightarrow> checkInDate p \<noteq> None \<Longrightarrow> dated_by now (set_checkOut now p)"
  by (auto simp: dated_by_def date_invariant_def set_checkOut_def split: option.splits)

lemma snd_checkIn:
  "snd (checkIn people personId now) = people
   \<or> (\<exists>s. snd (checkIn people personId now) = snd (updateAsync people s (set_checkIn now)))"
proof (cases personId)
  case (JStr s)
  have "snd (checkIn people (JStr s) now) = people
     \<or> snd (checkIn people (JStr s) now) = snd (updateAsync people s (set_checkIn now))"
    by (simp add: checkIn_def modifiedCount_def split: prod.splits)
  with JStr show ?thesis by blast
qed (simp_all add: checkIn_def modifiedCount_def)

lemma checkIn_dated_by:
  assumes a: "list_all (dated_by now) people"
  shows "list_all (dated_by now) (snd (checkIn people personId now))"
proof -
  have "list_all (dated_by now) (snd (updateAsync people s (set_checkIn now)))" for s
    using a by (rule updateAsync_list_all) (rule dated_by_set_checkIn)
  with a snd_checkIn [of people personId now] show ?thesis
    by auto
qed

lemma checkOut_dated_by:
  assumes a: "list_all (dated_by now) people"
  shows "list_all (dated_by now) (snd (checkOut people personId now))"
proof (cases "checkOut_read people personId")
  case (Inl e)
  with a show ?thesis by (simp add: checkOut_def)
next
  case (Inr s)
  from checkOut_read_Inr [OF Inr] obtain p where f: "findOneAsync people s = Some p"
    and i: "checkInDate p \<noteq> None"
    by auto
  have "dated_by now p"
    using a findOneAsync_in [OF f] by (simp add: list_all_iff)
  then have "dated_by now (set_checkOut now p)"
    using i by (rule dated_by_set_checkOut)
  then have "list_all (dated_by now) (snd (updateAsync people s (set_checkOut now)))"
    using a f by (intro updateAsync_list_all) simp_all
  moreover have "snd (checkOut people personId now) = snd (updateAsync people s (set_checkOut now))"
    using Inr by (simp add: checkOut_def checkOut_write_def modifiedCount_def split: prod.splits)
  ultimately show ?thesis by simp
qed

lemma call_method_dated_by:
  "list_all (dated_by (snd c)) people \<Longrightarrow> list_all (dated_by (snd c)) (snd (call_method people c))"
  by (auto simp: call_method_def checkIn_dated_by checkOut_dated_by
      split: prod.splits method_call.splits method_name.splits)

lemma call_methods_dated_by:
  "list_all (dated_by t) people \<Longrightarrow> clock_from t calls \<Longrightarrow>
   \<exists>t'. list_all (dated_by t') (call_methods people calls)"
proof (induction calls arbitrary: people t)
  case Nil
  then show ?case by auto
next
  case (Cons c cs)
  from Cons.prems have "list_all (dated_by (snd c)) people"
    by (auto intro: dated_by_all_mono)
  then have "list_all (dated_by (snd c)) (snd (call_method people c))"
    by (rule call_method_dated_by)
  moreover from Cons.prems have "clock_from (snd c) cs" by simp
  ultimately show ?case
    using Cons.IH by simp
qed

text \<open>
  C9, as stated, fails: the methods store the clock value they read and compare no dates.
  When the clock steps back between the check-in (read at 1000) and the check-out (read
  at 999) of P1, the record ends with a checkOutDate earlier than its checkInDate.
\<close>

theorem date_invariant_counterexample:
  "call_methods [ana] [(CallAsync People_checkIn (JStr ''P1''), 1000),
                       (CallAsync People_checkOut (JStr ''P1''), 999)]
     = [ana\<lparr>checkInDate := Some 1000, checkOutDate := Some 999\<rparr>]
   \<and> \<not> date_invariant (ana\<lparr>checkInDate := Some 1000, checkOutDate := Some 999\<rparr>)"
proof -
  have 1: "checkIn [ana] (JStr ''P1'') 1000
     = (Inr [(''success'', JBool True), (''message'', JStr ''Check-in realizado com sucesso!'')],
        [ana\<lparr>checkInDate := Some 1000\<rparr>])"
    using trim_P1 by (simp add: checkIn_def modifiedCount_def set_checkIn_def ana_def)
  have 2: "checkOut [ana\<lparr>checkInDate := Some 1000\<rparr>] (JStr ''P1'') 999
     = (Inr [(''success'', JBool True), (''message'', JStr ''Check-out realizado com sucesso!'')],
        [ana\<lparr>checkInDate := Some 1000, checkOutDate := Some 999\<rparr>])"
    using trim_P1
    by (simp add: checkOut_def checkOut_read_def checkOut_write_def modifiedCount_def
        findOneAsync_def set_checkOut_def ana_def)
  have 3: "\<not> date_invariant (ana\<lparr>checkInDate := Some 1000, checkOutDate := Some 999\<rparr>)"
    by (simp add: date_invariant_def)
  show ?thesis
    using 3 by (simp add: call_method_def 1 2)
qed

text \<open>
  C9, amended. After every sequence of \<^verbatim>\<open>people.checkIn\<close> and \<^verbatim>\<open>people.checkOut\<close>
  calls, run one after the other with any arguments and reading a clock that never goes
  back, from a collection that satisfies the invariant with no date later than the
  clock's starting value, every record with a checkOutDate has a checkInDate that is not
  later.
\<close>

theorem date_invariant_preserved:
  "list_all (dated_by t) people \<Longrightarrow> clock_from t calls \<Longrightarrow>
   list_all date_invariant (call_methods people calls)"
proof -
  assume "list_all (dated_by t) people" and "clock_from t calls"
  then obtain t' where "list_all (dated_by t') (call_methods people calls)"
    using call_methods_dated_by by blast
  then show ?thesis
    by (simp add: list_all_iff dated_by_def)
qed

theorem date_invariant_preserved_witness:
  "list_all (dated_by 0) [ana, bo]
   \<and> clock_from 0 [(CallAsync People_checkIn (JStr ''P1''), 1000),
                   (CallAsync People_checkOut (JStr ''P1''), 3000),
                   (CallAsync People_checkOut (JStr ''P1''), 4000)]
   \<and> call_methods [ana, bo] [(CallAsync People_checkIn (JStr ''P1''), 1000),
                              (CallAsync People_checkOut (JStr ''P1''), 3000),
                              (CallAsync People_checkOut (JStr ''P1''), 4000)]
       = [ana_departed, bo]
   \<and> list_all date_invariant [ana_departed, bo]"
proof -
  have a: "list_all (dated_by 0) [ana, bo]"
    by (simp add: dated_by_def date_invariant_def ana_def bo_def)
  have b: "clock_from 0 [(CallAsync People_checkIn (JStr ''P1''), 1000),
                   (CallAsync People_checkOut (JStr ''P1''), 3000),
                   (CallAsync People_checkOut (JStr ''P1''), 4000)]"
    by simp
  have 1: "checkIn [ana, bo] (JStr ''P1'') 1000
     = (Inr [(''success'', JBool True), (''message'', JStr ''Check-in realizado com sucesso!'')],
        [ana_present, bo])"
    using trim_P1 by (simp add: checkIn_def modifiedCount_def set_checkIn_def modifiedCount_def ana_present_def ana_def)
  have 2: "checkOut [ana_present, bo] (JStr ''P1'') 3000
     = (Inr [(''success'', JBool True), (''message'', JStr ''Check-out realizado com sucesso!'')],
        [ana_departed, bo])"
    using trim_P1
    by (simp add: checkOut_def checkOut_read_def checkOut_write_def modifiedCount_def findOneAsync_def
        set_checkOut_def ana_present_def ana_departed_def ana_def)
  have 3: "checkOut [ana_departed, bo] (JStr ''P1'') 4000
     = (Inl (MeteorError ''already-checked-out''), [ana_departed, bo])"
    using trim_P1
    by (simp add: checkOut_def checkOut_read_def findOneAsync_def ana_departed_def ana_def)
  have c: "call_methods [ana, bo] [(CallAsync People_checkIn (JStr ''P1''), 1000),
                              (CallAsync People_checkOut (JStr ''P1''), 3000),
                              (CallAsync People_checkOut (JStr ''P1''), 4000)]
       = [ana_departed, bo]"
    by (simp add: call_method_def 1 2 3)
  from date_invariant_preserved [OF a b] a b c show ?thesis
    by simp
qed

section \<open>The action button of a present person\<close>

lemma floor_seconds: "((x::int) div 1000 < 5) = (x < 5000)"
proof -
  have e: "x = 1000 * (x div 1000) + x mod 1000"
    by simp
  have "0 \<le> x mod 1000" "x mod 1000 < 1000"
    by simp_all
  with e show ?thesis by linarith
qed

lemma renderActionButton_waiting:
  assumes i: "checkInDate person = Some d" and out: "checkOutDate person = None"
    and w: "now - d < 5000"
  shows "renderActionButton now person
        = Button True None
            [JsxText ''Aguarde... ('', JsxNumber (5 - (now - d) div 1000), JsxText ''s)'']"
proof -
  have "getTimeDifferenceInSeconds now (checkInDate person) = (now - d) div 1000"
    using i by (simp add: getTimeDifferenceInSeconds_def)
  moreover have "(now - d) div 1000 < 5"
    using w by (simp only: floor_seconds)
  ultimately show ?thesis
    using i out by (simp add: renderActionButton_def Let_def)
qed

lemma renderActionButton_checkOut:
  assumes i: "checkInDate person = Some d" and out: "checkOutDate person = None"
    and w: "5000 \<le> now - d"
  shows "renderActionButton now person
        = Button False (Some (CallAsync People_checkOut (JStr (person_id person))))
            [JsxText ''Check-out '', JsxText (firstName person @ '' '' @ lastName person)]"
proof -
  have "getTimeDifferenceInSeconds now (checkInDate person) = (now - d) div 1000"
    using i by (simp add: getTimeDifferenceInSeconds_def)
  moreover have "\<not> (now - d) div 1000 < 5"
    using w by (simp only: floor_seconds not_less)
  ultimately show ?thesis
    using i out by (simp add: renderActionButton_def handleCheckOut_def Let_def)
qed

text \<open>
  C10. For a person who is present (checkInDate set, checkOutDate null),
  \<^verbatim>\<open>renderActionButton\<close> returns, while fewer than 5000 milliseconds have passed since
  checkInDate, the disabled button that shows the seconds left and has no click handler;
  from 5000 milliseconds on it returns the enabled button whose click handler calls
  \<^verbatim>\<open>people.checkOut\<close> with the person's id.
\<close>

theorem renderActionButton_present:
  "checkInDate person = Some d \<Longrightarrow> checkOutDate person = None \<Longrightarrow>
   (now - d < 5000 \<longrightarrow>
      renderActionButton now person
        = Button True None
            [JsxText ''Aguarde... ('', JsxNumber (5 - (now - d) div 1000), JsxText ''s)''])
   \<and> (5000 \<le> now - d \<longrightarrow>
      renderActionButton now person
        = Button False (Some (CallAsync People_checkOut (JStr (person_id person))))
            [JsxText ''Check-out '', JsxText (firstName person @ '' '' @ lastName person)])"
  using renderActionButton_waiting renderActionButton_checkOut by blast

theorem renderActionButton_present_witness:
  "checkInDate ana_present = Some 1000 \<and> checkOutDate ana_present = None
   \<and> (5999::int) - 1000 < 5000
   \<and> renderActionButton 5999 ana_present
       = Button True None [JsxText ''Aguarde... ('', JsxNumber 1, JsxText ''s)'']
   \<and> (5000::int) \<le> 6000 - 1000
   \<and> renderActionButton 6000 ana_present
       = Button False (Some (CallAsync People_checkOut (JStr ''P1'')))
           [JsxText ''Check-out '', JsxText ''Ana Lee'']"
proof -
  have i: "checkInDate ana_present = Some 1000" and out: "checkOutDate ana_present = None"
    by (simp_all add: ana_present_def ana_def)
  have n: "person_id ana_present = ''P1''" "firstName ana_present = ''Ana''"
    "lastName ana_present = ''Lee''"
    by (simp_all add: ana_present_def ana_def)
  have a: "renderActionButton 5999 ana_present
       = Button True None [JsxText ''Aguarde... ('', JsxNumber 1, JsxText ''s)'']"
    using renderActionButton_present [OF i out, of 5999] by simp
  have b: "renderActionButton 6000 ana_present
       = Button False (Some (CallAsync People_checkOut (JStr ''P1'')))
           [JsxText ''Check-out '', JsxText ''Ana Lee'']"
    using renderActionButton_present [OF i out, of 6000] n by simp
  from i out a b show ?thesis by simp
qed

end
